theory Spec2Isabelle
  imports Main "HOL-Library.Word" "HOL-Library.List_Lexorder"
begin

section \<open>The keyspace model (py/vtdb/keyspace.py)\<close>

subsection \<open>Data\<close>

text \<open>
  Key-range bounds and packed keyspace ids are byte strings. Python compares them
  bytewise, a proper prefix being smaller: this is the lexicographic order on lists.
\<close>

type_synonym bytes = "8 word list"

text \<open>
  \<^verbatim>\<open>keyrange_constants\<close> is a module of its own that keyspace.py imports; the two
  constants the code reads from it are parameters of the model.
\<close>

record keyrange_constants =
  MAX_KEY :: bytes
  KIT_UNSET :: string

record key_range =
  Start :: bytes
  End :: bytes

record shard_reference =
  Name :: string
  KeyRange :: key_range

text \<open>
  A partition is a dict that may lack the key \<^verbatim>\<open>'ShardReferences'\<close>; the raw SrvKeyspace
  record is a dict in which each of the four keys the constructor reads may be missing.
  Keys the code never reads are kept in \<open>other_keys\<close>: they make the dict non-empty.
\<close>

record keyspace_partition =
  ShardReferences :: "shard_reference list option"

record srv_keyspace =
  Partitions :: "(string \<rightharpoonup> keyspace_partition) option"
  ShardingColumnName :: "string option"
  ShardingColumnType :: "string option"
  ServedFrom :: "(string \<rightharpoonup> string) option"
  other_keys :: "string list"

record keyspace =
  name :: string
  partitions :: "string \<rightharpoonup> keyspace_partition"
  sharding_col_name :: string
  sharding_col_type :: string
  served_from :: "(string \<rightharpoonup> string) option"

subsection \<open>Exceptions\<close>

text \<open>
  The three \<^verbatim>\<open>ValueError\<close>s of keyspace.py are told apart by their arguments;
  \<^verbatim>\<open>struct.error\<close> is what \<^verbatim>\<open>struct.Struct('!Q').pack\<close> raises;
  \<^verbatim>\<open>dbexceptions.OperationalError\<close> carries a message, the keyspace name and,
  when it wraps another exception, that exception. \<open>OtherException\<close> stands for every
  other subclass of \<^verbatim>\<open>Exception\<close> a topology client may raise.
\<close>

datatype value_error_args =
    Keyspace_id_is_not_set
  | Db_type_is_not_set
  | Cannot_find_shard int "shard_reference list"

datatype py_exception =
    ValueError value_error_args
  | StructError
  | OperationalError string string "py_exception option"
  | OtherException string

subsection \<open>Operations\<close>

text \<open>\<^verbatim>\<open>pack_keyspace_id = struct.Struct('!Q').pack\<close>: eight bytes, most significant first.\<close>

definition pack_keyspace_id :: "int \<Rightarrow> py_exception + bytes" where
  "pack_keyspace_id k =
     (if 0 \<le> k \<and> k < 2 ^ 64
      then Inr [word_of_int (k div 2 ^ 56), word_of_int (k div 2 ^ 48),
                word_of_int (k div 2 ^ 40), word_of_int (k div 2 ^ 32),
                word_of_int (k div 2 ^ 24), word_of_int (k div 2 ^ 16),
                word_of_int (k div 2 ^ 8), word_of_int k]
      else Inl StructError)"

definition Keyspace :: "keyrange_constants \<Rightarrow> string \<Rightarrow> srv_keyspace \<Rightarrow> keyspace" where
  "Keyspace kc nm data =
     \<lparr> name = nm,
       partitions = (case Partitions data of None \<Rightarrow> Map.empty | Some p \<Rightarrow> p),
       sharding_col_name = (case ShardingColumnName data of None \<Rightarrow> [] | Some s \<Rightarrow> s),
       sharding_col_type = (case ShardingColumnType data of None \<Rightarrow> KIT_UNSET kc | Some t \<Rightarrow> t),
       served_from = ServedFrom data \<rparr>"

text \<open>
  \<^verbatim>\<open>self.partitions[db_type]['ShardReferences']\<close>: either lookup may raise
  \<^verbatim>\<open>KeyError\<close>, and both are caught by the same handler, which returns \<^verbatim>\<open>[]\<close>.
\<close>

definition get_shards :: "keyspace \<Rightarrow> string \<Rightarrow> py_exception + shard_reference list" where
  "get_shards self db_type =
     (if db_type = [] then Inl (ValueError Db_type_is_not_set)
      else case partitions self db_type of
             None \<Rightarrow> Inr []
           | Some p \<Rightarrow> (case ShardReferences p of None \<Rightarrow> Inr [] | Some shards \<Rightarrow> Inr shards))"

definition get_shard_count :: "keyspace \<Rightarrow> string \<Rightarrow> py_exception + nat" where
  "get_shard_count self db_type =
     (if db_type = [] then Inl (ValueError Db_type_is_not_set)
      else case get_shards self db_type of
             Inl e \<Rightarrow> Inl e
           | Inr shards \<Rightarrow> Inr (length shards))"

definition get_shard_names :: "keyspace \<Rightarrow> string \<Rightarrow> py_exception + string list" where
  "get_shard_names self db_type =
     (if db_type = [] then Inl (ValueError Db_type_is_not_set)
      else case get_shards self db_type of
             Inl e \<Rightarrow> Inl e
           | Inr shards \<Rightarrow> Inr (map Name shards))"

definition shard_contain_kid :: "keyrange_constants \<Rightarrow> bytes \<Rightarrow> bytes \<Rightarrow> bytes \<Rightarrow> bool" where
  "shard_contain_kid kc pkid start end \<longleftrightarrow>
     start \<le> pkid \<and> (end = MAX_KEY kc \<or> pkid < end)"

text \<open>The \<^verbatim>\<open>for shard in shards\<close> loop: the first shard that contains the key ends it.\<close>

fun scan_shards :: "keyrange_constants \<Rightarrow> bytes \<Rightarrow> shard_reference list \<Rightarrow> string option" where
  "scan_shards kc pkid [] = None"
| "scan_shards kc pkid (shard # shards) =
     (if shard_contain_kid kc pkid (Start (KeyRange shard)) (End (KeyRange shard))
      then Some (Name shard)
      else scan_shards kc pkid shards)"

definition keyspace_id_to_shard_name_for_db_type ::
    "keyrange_constants \<Rightarrow> keyspace \<Rightarrow> int \<Rightarrow> string \<Rightarrow> py_exception + string" where
  "keyspace_id_to_shard_name_for_db_type kc self keyspace_id db_type =
     (if keyspace_id = 0 then Inl (ValueError Keyspace_id_is_not_set)
      else if db_type = [] then Inl (ValueError Db_type_is_not_set)
      else case pack_keyspace_id keyspace_id of
             Inl e \<Rightarrow> Inl e
           | Inr pkid \<Rightarrow>
               (case get_shards self db_type of
                  Inl e \<Rightarrow> Inl e
                | Inr shards \<Rightarrow>
                    (case scan_shards kc pkid shards of
                       Some nm \<Rightarrow> Inr nm
                     | None \<Rightarrow> Inl (ValueError (Cannot_find_shard keyspace_id shards)))))"

text \<open>
  \<^verbatim>\<open>read_keyspace\<close>: the topology client either raises or returns a record, which may
  be \<^verbatim>\<open>None\<close>. \<^verbatim>\<open>not data\<close> holds for \<^verbatim>\<open>None\<close> and for the empty dict.
\<close>

definition is_empty_dict :: "srv_keyspace \<Rightarrow> bool" where
  "is_empty_dict data \<longleftrightarrow>
     Partitions data = None \<and> ShardingColumnName data = None \<and>
     ShardingColumnType data = None \<and> ServedFrom data = None \<and> other_keys data = []"

fun is_OperationalError :: "py_exception \<Rightarrow> bool" where
  "is_OperationalError (OperationalError m n c) = True"
| "is_OperationalError e = False"

definition read_keyspace ::
    "keyrange_constants \<Rightarrow> (string \<Rightarrow> string \<Rightarrow> py_exception + srv_keyspace option) \<Rightarrow>
     string \<Rightarrow> py_exception + keyspace" where
  "read_keyspace kc get_srv_keyspace keyspace_name =
     (let body =
        (case get_srv_keyspace ''local'' keyspace_name of
           Inl e \<Rightarrow> Inl e
         | Inr None \<Rightarrow> Inl (OperationalError ''invalid empty keyspace'' keyspace_name None)
         | Inr (Some data) \<Rightarrow>
             (if is_empty_dict data
              then Inl (OperationalError ''invalid empty keyspace'' keyspace_name None)
              else Inr (Keyspace kc keyspace_name data)))
      in case body of
           Inr ks \<Rightarrow> Inr ks
         | Inl e \<Rightarrow>
             (if is_OperationalError e then Inl e
              else Inl (OperationalError ''invalid keyspace'' keyspace_name (Some e))))"

subsection \<open>Well-formed partitionings\<close>



definition contains_kid :: "keyrange_constants \<Rightarrow> bytes \<Rightarrow> shard_reference \<Rightarrow> bool" where
  "contains_kid kc pkid shard =
     shard_contain_kid kc pkid (Start (KeyRange shard)) (End (KeyRange shard))"

text \<open>The value a big-endian byte string denotes.\<close>

definition big_endian_value :: "bytes \<Rightarrow> int" where
  "big_endian_value bs = foldl (\<lambda>acc b. acc * 256 + uint b) 0 bs"

subsection \<open>A two-shard keyspace\<close>

definition example_constants :: keyrange_constants where
  "example_constants = \<lparr> MAX_KEY = [], KIT_UNSET = [] \<rparr>"

definition example_shards :: "shard_reference list" where
  "example_shards =
     [ \<lparr> Name = ''-80'', KeyRange = \<lparr> Start = [], End = [0x80] \<rparr> \<rparr>,
       \<lparr> Name = ''80-'', KeyRange = \<lparr> Start = [0x80], End = [] \<rparr> \<rparr> ]"

definition example_record :: srv_keyspace where
  "example_record =
     \<lparr> Partitions = Some [''master'' \<mapsto> \<lparr> ShardReferences = Some example_shards \<rparr>,
                            ''rdonly'' \<mapsto> \<lparr> ShardReferences = None \<rparr>],
       ShardingColumnName = Some ''keyspace_id'',
       ShardingColumnType = None,
       ServedFrom = None,
       other_keys = [] \<rparr>"

definition example_keyspace :: keyspace where
  "example_keyspace = Keyspace example_constants ''test_keyspace'' example_record"

definition empty_record :: srv_keyspace where
  "empty_record =
     \<lparr> Partitions = None, ShardingColumnName = None, ShardingColumnType = None,
       ServedFrom = None, other_keys = [] \<rparr>"

section \<open>The reparenting protocol\<close>

text \<open>
  The reparent coordinator is the vtctl command set (PlannedReparentShard,
  EmergencyReparentShard). Of it the Python sources hold the caller only,
  test/reparent.py; the coordinator, its data and the clients it consumes are modelled
  from the spec, and the shards of the tests serve as examples.
\<close>

subsection \<open>Data\<close>

text \<open>Modelled from the spec: the tablet reference, absent from the sources: cell and uid.\<close>

datatype tablet_alias = TabletAlias (Cell: string) (Uid: nat)

text \<open>Modelled from the spec: the roles of a tablet, absent from the sources.\<close>

datatype tablet_role = Master | Replica | Spare | Unknown | Scrapped

text \<open>
  Modelled from the spec: the tablet record, absent from the sources, with the fields the
  reparent reads and writes: the role and the tablet it replicates from.
\<close>

record tablet =
  role :: tablet_role
  replication_target :: "tablet_alias option"

text \<open>
  Modelled from the spec: the shard, absent from the sources: the master reference of the
  shard record, which may be empty, and the tablets of the shard, keyed by their alias.
\<close>

record shard_topology =
  master_alias :: "tablet_alias option"
  tablets :: "(tablet_alias \<times> tablet) list"

text \<open>
  Modelled from the spec: the result of an RPC of the NodeAgentClient, absent from the
  sources. A call succeeds, fails or times out; a timed-out call is treated like a
  failed one.
\<close>

datatype rpc_result = RpcOk | RpcFailed | RpcTimedOut

text \<open>
  Modelled from the spec: the NodeAgentClient, absent from the sources: the RPCs to one
  tablet that a reparent issues. The answers are given from outside, so that any failure
  can be injected.
\<close>

record node_agent_client =
  demote_master :: "tablet_alias \<Rightarrow> rpc_result"
  promote_slave :: "tablet_alias \<Rightarrow> rpc_result"
  set_master :: "tablet_alias \<Rightarrow> rpc_result"

text \<open>
  Modelled from the spec: the failure kinds that abort a reparent, absent from the
  sources. The spec names \<open>NoOpReparent\<close> and \<open>DemoteMasterFailed\<close>; a shard record without a
  master is a lookup miss (\<open>NotFound\<close>); the failed promotion of the new master, for which
  the spec has no name, is \<open>PromoteSlaveFailed\<close>.
\<close>

datatype reparent_error =
    NotFound
  | NoOpReparent
  | DemoteMasterFailed
  | PromoteSlaveFailed

text \<open>
  Modelled from the spec: what a reparent reports, absent from the sources. A failed
  rewire is not fatal: the operation reports overall success for the mastership change
  and enumerates the replicas whose rewire failed.
\<close>

datatype reparent_outcome = Succeeded "tablet_alias list" | Failed reparent_error

subsection \<open>Operations\<close>

text \<open>
  Modelled from the spec: step 4 of the reparent, absent from the sources, as far as it
  fails. Every tablet of the shard but the old and the new master is rewired, each on
  its own; the tablets whose rewire fails or times out are collected.
\<close>

definition rewire_failures ::
    "node_agent_client \<Rightarrow> tablet_alias option \<Rightarrow> tablet_alias \<Rightarrow>
     (tablet_alias \<times> tablet) list \<Rightarrow> tablet_alias list" where
  "rewire_failures agent old new ts =
     filter (\<lambda>a. Some a \<noteq> old \<and> a \<noteq> new \<and> set_master agent a \<noteq> RpcOk) (map fst ts)"

text \<open>
  Modelled from the spec: steps 3 to 5 of the reparent, absent from the sources, seen from
  one tablet. The new master takes the master role and replicates from nobody. The old
  master is demoted and promoted to no other role, so its role is unknown from then on;
  step 4 excepts it from the rewire, so its replication target stays as it is. Any other
  tablet replicates from the new master if its rewire succeeds and stays as it is if not.
\<close>

definition commit_tablet ::
    "node_agent_client \<Rightarrow> tablet_alias option \<Rightarrow> tablet_alias \<Rightarrow> tablet_alias \<Rightarrow> tablet \<Rightarrow>
     tablet" where
  "commit_tablet agent old new a t =
     (if a = new then t\<lparr> role := Master, replication_target := None \<rparr>
      else if Some a = old then t\<lparr> role := Unknown \<rparr>
      else if set_master agent a = RpcOk then t\<lparr> replication_target := Some new \<rparr>
      else t)"

text \<open>
  Modelled from the spec: step 5 of the reparent, absent from the sources. The shard
  record names the new master, and the tablets are as the rewire left them.
\<close>

definition rewire_and_commit ::
    "node_agent_client \<Rightarrow> tablet_alias option \<Rightarrow> tablet_alias \<Rightarrow>
     (tablet_alias \<times> tablet) list \<Rightarrow> shard_topology" where
  "rewire_and_commit agent old new ts =
     \<lparr> master_alias = Some new,
       tablets = map (\<lambda>(a, t). (a, commit_tablet agent old new a t)) ts \<rparr>"

text \<open>
  Modelled from the spec: the planned reparent, absent from the sources. Step 1 reads the
  shard record and refuses a no-op; step 2 demotes the old master and aborts, with nothing
  written, when that RPC fails or times out; step 3 promotes the new master and aborts
  likewise when it cannot be promoted: when it is no tablet of the shard or its RPC fails
  or times out; steps 4 and 5 rewire the other tablets, commit, and report success
  together with the replicas whose rewire failed.
\<close>

definition planned_reparent_shard ::
    "node_agent_client \<Rightarrow> shard_topology \<Rightarrow> tablet_alias \<Rightarrow>
     reparent_outcome \<times> shard_topology" where
  "planned_reparent_shard agent topo new =
     (case master_alias topo of
        None \<Rightarrow> (Failed NotFound, topo)
      | Some old \<Rightarrow>
          if new = old then (Failed NoOpReparent, topo)
          else if demote_master agent old \<noteq> RpcOk then (Failed DemoteMasterFailed, topo)
          else if new \<notin> set (map fst (tablets topo)) \<or> promote_slave agent new \<noteq> RpcOk
            then (Failed PromoteSlaveFailed, topo)
          else (Succeeded (rewire_failures agent (Some old) new (tablets topo)),
                rewire_and_commit agent (Some old) new (tablets topo)))"

text \<open>
  Modelled from the spec: the emergency reparent, absent from the sources. Step 1 is as in
  the planned reparent, but for a shard without a master, which is no obstacle here;
  step 2 is skipped: the old master is never contacted, and it is removed from the shard
  as part of the operation, so only the survivors are rewired. The new master is
  promoted, the survivors are rewired, the result is committed and reported as in the
  planned reparent.
\<close>

definition emergency_reparent_shard ::
    "node_agent_client \<Rightarrow> shard_topology \<Rightarrow> tablet_alias \<Rightarrow>
     reparent_outcome \<times> shard_topology" where
  "emergency_reparent_shard agent topo new =
     (let survivors = filter (\<lambda>(a, t). Some a \<noteq> master_alias topo) (tablets topo)
      in if master_alias topo = Some new then (Failed NoOpReparent, topo)
         else if new \<notin> set (map fst survivors) \<or> promote_slave agent new \<noteq> RpcOk
           then (Failed PromoteSlaveFailed, topo)
         else (Succeeded (rewire_failures agent None new survivors),
               rewire_and_commit agent None new survivors))"



subsection \<open>The shards of test/reparent.py\<close>

text \<open>
  The four tablets of the tests. Tablets 62344, 62044 and 41983 are in cell test_nj (the
  replication links and the error message the tests check name them so), tablet 31981
  in cell test_ny (test_reparent_cross_cell looks its address up there).
\<close>

definition tablet_62344 :: tablet_alias where "tablet_62344 = TabletAlias ''test_nj'' 62344"
definition tablet_62044 :: tablet_alias where "tablet_62044 = TabletAlias ''test_nj'' 62044"
definition tablet_41983 :: tablet_alias where "tablet_41983 = TabletAlias ''test_nj'' 41983"
definition tablet_31981 :: tablet_alias where "tablet_31981 = TabletAlias ''test_ny'' 31981"

text \<open>
  test_reparent_down_master, and the manual _test_reparent_slave_offline: after
  InitShardMaster, 62344 is the master and the three other tablets are its replicas.
\<close>

definition down_master_shard :: shard_topology where
  "down_master_shard =
     \<lparr> master_alias = Some tablet_62344,
       tablets =
         [(tablet_62344, \<lparr> role = Master, replication_target = None \<rparr>),
          (tablet_62044, \<lparr> role = Replica, replication_target = Some tablet_62344 \<rparr>),
          (tablet_41983, \<lparr> role = Replica, replication_target = Some tablet_62344 \<rparr>),
          (tablet_31981, \<lparr> role = Replica, replication_target = Some tablet_62344 \<rparr>)] \<rparr>"

text \<open>
  The tablets as the tests have them: all running, or one of them shut down, so that
  every RPC to it fails or times out.
\<close>

definition all_up :: node_agent_client where
  "all_up =
     \<lparr> demote_master = (\<lambda>a. RpcOk), promote_slave = (\<lambda>a. RpcOk), set_master = (\<lambda>a. RpcOk) \<rparr>"

definition down :: "tablet_alias \<Rightarrow> node_agent_client" where
  "down d =
     \<lparr> demote_master = (\<lambda>a. if a = d then RpcTimedOut else RpcOk),
       promote_slave = (\<lambda>a. if a = d then RpcFailed else RpcOk),
       set_master = (\<lambda>a. if a = d then RpcFailed else RpcOk) \<rparr>"

text \<open>
  test_reparent_with_down_slave: after InitShardMaster, 62344 is the master, 62044 and
  31981 are replicas and 41983 is a spare; the database of 41983 is shut down before
  the planned reparent.
\<close>

definition down_slave_shard :: shard_topology where
  "down_slave_shard =
     \<lparr> master_alias = Some tablet_62344,
       tablets =
         [(tablet_62344, \<lparr> role = Master, replication_target = None \<rparr>),
          (tablet_62044, \<lparr> role = Replica, replication_target = Some tablet_62344 \<rparr>),
          (tablet_31981, \<lparr> role = Replica, replication_target = Some tablet_62344 \<rparr>),
          (tablet_41983, \<lparr> role = Spare, replication_target = Some tablet_62344 \<rparr>)] \<rparr>"

section \<open>Properties of the keyspace model\<close>






lemma zero_bytes_le:
  "([0, 0, 0, 0, 0, 0, 0, 0] :: bytes) \<le> [a, b, c, d, e, f, g, h]"
  by (simp add: word_gt_0)








lemma example_partitions:
  "partitions example_keyspace =
     [''master'' \<mapsto> \<lparr> ShardReferences = Some example_shards \<rparr>,
      ''rdonly'' \<mapsto> \<lparr> ShardReferences = None \<rparr>]"
  by (simp add: example_keyspace_def example_record_def Keyspace_def)




lemma uint_byte: "uint (word_of_int x :: 8 word) = x mod 256"
  by (simp add: uint_word_of_int)

lemma byte_step: "(x div 2 ^ (n + 8)) * 256 + (x div 2 ^ n) mod 256 = (x::int) div 2 ^ n"
proof -
  have "x div 2 ^ (n + 8) = (x div 2 ^ n) div 256"
    by (simp add: power_add zdiv_zmult2_eq)
  then show ?thesis by simp
qed

lemma big_endian_value_bytes:
  assumes "0 \<le> k" "k < 2 ^ 64"
  shows "big_endian_value [word_of_int (k div 2 ^ 56), word_of_int (k div 2 ^ 48),
                word_of_int (k div 2 ^ 40), word_of_int (k div 2 ^ 32),
                word_of_int (k div 2 ^ 24), word_of_int (k div 2 ^ 16),
                word_of_int (k div 2 ^ 8), word_of_int k :: 8 word] = k"
proof -
  from assms have "k div 2 ^ 56 < 256" by simp
  moreover from assms have "0 \<le> k div 2 ^ 56" by simp
  ultimately have top: "(k div 2 ^ 56) mod 256 = k div 2 ^ 56" by simp
  have s48: "(k div 2 ^ 56) * 256 + (k div 2 ^ 48) mod 256 = k div 2 ^ 48"
    using byte_step [of k 48] by simp
  have s40: "(k div 2 ^ 48) * 256 + (k div 2 ^ 40) mod 256 = k div 2 ^ 40"
    using byte_step [of k 40] by simp
  have s32: "(k div 2 ^ 40) * 256 + (k div 2 ^ 32) mod 256 = k div 2 ^ 32"
    using byte_step [of k 32] by simp
  have s24: "(k div 2 ^ 32) * 256 + (k div 2 ^ 24) mod 256 = k div 2 ^ 24"
    using byte_step [of k 24] by simp
  have s16: "(k div 2 ^ 24) * 256 + (k div 2 ^ 16) mod 256 = k div 2 ^ 16"
    using byte_step [of k 16] by simp
  have s8: "(k div 2 ^ 16) * 256 + (k div 2 ^ 8) mod 256 = k div 2 ^ 8"
    using byte_step [of k 8] by simp
  have s0: "(k div 2 ^ 8) * 256 + k mod 256 = k"
    using byte_step [of k 0] by simp
  show ?thesis
    unfolding big_endian_value_def
    by (simp only: foldl.simps uint_byte top s48 s40 s32 s24 s16 s8 s0 mult_zero_left add_0)
qed

lemma pack_keyspace_id_big_endian:
  assumes "0 \<le> k" "k < 2 ^ 64"
  shows "\<exists>pkid. pack_keyspace_id k = Inr pkid \<and> length pkid = 8 \<and> big_endian_value pkid = k"
proof (intro exI conjI)
  show "pack_keyspace_id k =
          Inr [word_of_int (k div 2 ^ 56), word_of_int (k div 2 ^ 48),
               word_of_int (k div 2 ^ 40), word_of_int (k div 2 ^ 32),
               word_of_int (k div 2 ^ 24), word_of_int (k div 2 ^ 16),
               word_of_int (k div 2 ^ 8), word_of_int k]"
    using assms by (simp only: pack_keyspace_id_def simp_thms if_True)
  show "length [word_of_int (k div 2 ^ 56), word_of_int (k div 2 ^ 48),
               word_of_int (k div 2 ^ 40), word_of_int (k div 2 ^ 32),
               word_of_int (k div 2 ^ 24), word_of_int (k div 2 ^ 16),
               word_of_int (k div 2 ^ 8), word_of_int k :: 8 word] = 8"
    by simp
  show "big_endian_value [word_of_int (k div 2 ^ 56), word_of_int (k div 2 ^ 48),
               word_of_int (k div 2 ^ 40), word_of_int (k div 2 ^ 32),
               word_of_int (k div 2 ^ 24), word_of_int (k div 2 ^ 16),
               word_of_int (k div 2 ^ 8), word_of_int k :: 8 word] = k"
    using assms by (rule big_endian_value_bytes)
qed

lemma scan_shards_find:
  "scan_shards kc pkid shards = map_option Name (find (contains_kid kc pkid) shards)"
  by (induction shards) (simp_all add: contains_kid_def)

lemma get_shards_total:
  "db_type \<noteq> [] \<Longrightarrow> \<exists>shards. get_shards self db_type = Inr shards"
  by (simp add: get_shards_def split: option.splits)

text \<open>
  Claim C2, as amended. For every key from 1 to \<open>2^64 - 1\<close> and every non-empty role,
  \<^verbatim>\<open>keyspace_id_to_shard_name_for_db_type\<close> packs the key into eight bytes, most significant
  first, scans the role's shard references in stored order and returns the name of the
  first shard whose range contains the packed key under the lexicographic order of byte
  strings, an end equal to \<open>MAX_KEY\<close> accepting every key from the start on; when no range
  contains the key it fails with the "cannot find shard" error.
\<close>

theorem resolve_shard_first_match:
  assumes "1 \<le> keyspace_id" "keyspace_id < 2 ^ 64" "db_type \<noteq> []"
  shows "\<exists>pkid shards.
           pack_keyspace_id keyspace_id = Inr pkid \<and> length pkid = 8 \<and>
           big_endian_value pkid = keyspace_id \<and>
           get_shards self db_type = Inr shards \<and>
           keyspace_id_to_shard_name_for_db_type kc self keyspace_id db_type =
             (case find (contains_kid kc pkid) shards of
                Some shard \<Rightarrow> Inr (Name shard)
              | None \<Rightarrow> Inl (ValueError (Cannot_find_shard keyspace_id shards))) \<and>
           (\<forall>shard. contains_kid kc pkid shard \<longleftrightarrow>
              Start (KeyRange shard) \<le> pkid \<and>
              (End (KeyRange shard) = MAX_KEY kc \<or> pkid < End (KeyRange shard)))"
proof -
  from assms(1,2) obtain pkid where pk: "pack_keyspace_id keyspace_id = Inr pkid"
    and len: "length pkid = 8" and val: "big_endian_value pkid = keyspace_id"
    using pack_keyspace_id_big_endian [of keyspace_id] by auto
  from assms(3) obtain shards where gs: "get_shards self db_type = Inr shards"
    using get_shards_total by blast
  from assms pk gs
  have "keyspace_id_to_shard_name_for_db_type kc self keyspace_id db_type =
          (case find (contains_kid kc pkid) shards of
             Some shard \<Rightarrow> Inr (Name shard)
           | None \<Rightarrow> Inl (ValueError (Cannot_find_shard keyspace_id shards)))"
    by (simp add: keyspace_id_to_shard_name_for_db_type_def scan_shards_find
        split: option.splits)
  moreover have "\<forall>shard. contains_kid kc pkid shard \<longleftrightarrow>
              Start (KeyRange shard) \<le> pkid \<and>
              (End (KeyRange shard) = MAX_KEY kc \<or> pkid < End (KeyRange shard))"
    by (simp add: contains_kid_def shard_contain_kid_def)
  ultimately show ?thesis using pk len val gs by blast
qed

theorem resolve_shard_first_match_witness:
  "(1::int) \<le> 1 \<and> (1::int) < 2 ^ 64 \<and> ''master'' \<noteq> [] \<and>
   (\<exists>pkid shards.
      pack_keyspace_id 1 = Inr pkid \<and> length pkid = 8 \<and> big_endian_value pkid = 1 \<and>
      get_shards example_keyspace ''master'' = Inr shards \<and>
      keyspace_id_to_shard_name_for_db_type example_constants example_keyspace 1 ''master'' =
        (case find (contains_kid example_constants pkid) shards of
           Some shard \<Rightarrow> Inr (Name shard)
         | None \<Rightarrow> Inl (ValueError (Cannot_find_shard 1 shards))) \<and>
      (\<forall>shard. contains_kid example_constants pkid shard \<longleftrightarrow>
         Start (KeyRange shard) \<le> pkid \<and>
         (End (KeyRange shard) = MAX_KEY example_constants \<or> pkid < End (KeyRange shard))))"
  using resolve_shard_first_match [of 1 "''master''" example_keyspace example_constants]
  by simp

text \<open>
  Claim C2, as stated, fails for a non-zero key that does not fit in 64 unsigned bits:
  for the key \<open>2^64\<close> and the role master the call ends in \<^verbatim>\<open>struct.error\<close>, neither
  in a shard name nor in the "cannot find shard" error.
\<close>

theorem resolve_shard_unpackable_key:
  "(2 ^ 64 :: int) \<noteq> 0 \<and> ''master'' \<noteq> [] \<and>
   keyspace_id_to_shard_name_for_db_type example_constants example_keyspace (2 ^ 64) ''master'' =
     Inl StructError"
  by (simp add: keyspace_id_to_shard_name_for_db_type_def pack_keyspace_id_def)

text \<open>
  Claim C6. A keyspace id of zero, or an empty db_type, makes
  \<^verbatim>\<open>keyspace_id_to_shard_name_for_db_type\<close> fail with a \<^verbatim>\<open>ValueError\<close> whatever the keyspace
  holds, so before its partitioning is looked at; \<^verbatim>\<open>get_shards\<close>, \<^verbatim>\<open>get_shard_count\<close> and
  \<^verbatim>\<open>get_shard_names\<close> do the same for an empty db_type.
\<close>

theorem unset_arguments_rejected:
  "keyspace_id_to_shard_name_for_db_type kc self 0 db_type =
     Inl (ValueError Keyspace_id_is_not_set) \<and>
   keyspace_id_to_shard_name_for_db_type kc self keyspace_id [] =
     Inl (ValueError (if keyspace_id = 0 then Keyspace_id_is_not_set else Db_type_is_not_set)) \<and>
   get_shards self [] = Inl (ValueError Db_type_is_not_set) \<and>
   get_shard_count self [] = Inl (ValueError Db_type_is_not_set) \<and>
   get_shard_names self [] = Inl (ValueError Db_type_is_not_set)"
  by (simp add: keyspace_id_to_shard_name_for_db_type_def get_shards_def get_shard_count_def
      get_shard_names_def)

text \<open>
  Claim C7. For a non-empty role without a partitioning in the keyspace,
  \<^verbatim>\<open>get_shards\<close> returns the empty list and raises nothing, so \<^verbatim>\<open>get_shard_count\<close> is 0
  and \<^verbatim>\<open>get_shard_names\<close> is the empty list.
\<close>

theorem absent_role_has_no_shards:
  assumes "db_type \<noteq> []" and "partitions self db_type = None"
  shows "get_shards self db_type = Inr [] \<and>
         get_shard_count self db_type = Inr 0 \<and>
         get_shard_names self db_type = Inr []"
  using assms by (simp add: get_shards_def get_shard_count_def get_shard_names_def)

theorem absent_role_has_no_shards_witness:
  "''replica'' \<noteq> [] \<and> partitions example_keyspace ''replica'' = None \<and>
   get_shards example_keyspace ''replica'' = Inr [] \<and>
   get_shard_count example_keyspace ''replica'' = Inr 0 \<and>
   get_shard_names example_keyspace ''replica'' = Inr []"
  using absent_role_has_no_shards [of "''replica''" example_keyspace]
  by (simp add: example_partitions)

text \<open>
  Claim C8. \<^verbatim>\<open>read_keyspace\<close> fails with the \<^verbatim>\<open>OperationalError\<close> "invalid empty keyspace"
  when the topology client returns no record or an empty one; an exception of the client
  that is not an \<^verbatim>\<open>OperationalError\<close> is wrapped into the \<^verbatim>\<open>OperationalError\<close>
  "invalid keyspace", which carries the keyspace name and the exception; an
  \<^verbatim>\<open>OperationalError\<close> of the client is passed on as it is. Any other record is loaded.
\<close>

theorem read_keyspace_errors:
  "(get_srv_keyspace ''local'' keyspace_name = Inr None \<longrightarrow>
      read_keyspace kc get_srv_keyspace keyspace_name =
        Inl (OperationalError ''invalid empty keyspace'' keyspace_name None)) \<and>
   (get_srv_keyspace ''local'' keyspace_name = Inr (Some data) \<and> is_empty_dict data \<longrightarrow>
      read_keyspace kc get_srv_keyspace keyspace_name =
        Inl (OperationalError ''invalid empty keyspace'' keyspace_name None)) \<and>
   (get_srv_keyspace ''local'' keyspace_name = Inl e \<and> \<not> is_OperationalError e \<longrightarrow>
      read_keyspace kc get_srv_keyspace keyspace_name =
        Inl (OperationalError ''invalid keyspace'' keyspace_name (Some e))) \<and>
   (get_srv_keyspace ''local'' keyspace_name = Inl e \<and> is_OperationalError e \<longrightarrow>
      read_keyspace kc get_srv_keyspace keyspace_name = Inl e) \<and>
   (get_srv_keyspace ''local'' keyspace_name = Inr (Some data) \<and> \<not> is_empty_dict data \<longrightarrow>
      read_keyspace kc get_srv_keyspace keyspace_name = Inr (Keyspace kc keyspace_name data))"
  by (simp add: read_keyspace_def)

theorem read_keyspace_errors_witness:
  "read_keyspace example_constants (\<lambda>cell nm. Inr None) ''test_keyspace'' =
     Inl (OperationalError ''invalid empty keyspace'' ''test_keyspace'' None) \<and>
   is_empty_dict empty_record \<and>
   read_keyspace example_constants (\<lambda>cell nm. Inr (Some empty_record)) ''test_keyspace'' =
     Inl (OperationalError ''invalid empty keyspace'' ''test_keyspace'' None) \<and>
   \<not> is_OperationalError (OtherException ''node not found'') \<and>
   read_keyspace example_constants (\<lambda>cell nm. Inl (OtherException ''node not found''))
       ''test_keyspace'' =
     Inl (OperationalError ''invalid keyspace'' ''test_keyspace''
            (Some (OtherException ''node not found''))) \<and>
   is_OperationalError (OperationalError ''connection lost'' ''test_keyspace'' None) \<and>
   read_keyspace example_constants
       (\<lambda>cell nm. Inl (OperationalError ''connection lost'' ''test_keyspace'' None))
       ''test_keyspace'' =
     Inl (OperationalError ''connection lost'' ''test_keyspace'' None) \<and>
   \<not> is_empty_dict example_record \<and>
   read_keyspace example_constants (\<lambda>cell nm. Inr (Some example_record)) ''test_keyspace'' =
     Inr example_keyspace"
  using
    read_keyspace_errors [where get_srv_keyspace = "\<lambda>cell nm. Inr None"
      and keyspace_name = "''test_keyspace''" and kc = example_constants]
    read_keyspace_errors [where get_srv_keyspace = "\<lambda>cell nm. Inr (Some empty_record)"
      and keyspace_name = "''test_keyspace''" and kc = example_constants and data = empty_record]
    read_keyspace_errors [where get_srv_keyspace = "\<lambda>cell nm. Inl (OtherException ''node not found'')"
      and keyspace_name = "''test_keyspace''" and kc = example_constants
      and e = "OtherException ''node not found''"]
    read_keyspace_errors
      [where get_srv_keyspace = "\<lambda>cell nm. Inl (OperationalError ''connection lost'' ''test_keyspace'' None)"
      and keyspace_name = "''test_keyspace''" and kc = example_constants
      and e = "OperationalError ''connection lost'' ''test_keyspace'' None"]
    read_keyspace_errors [where get_srv_keyspace = "\<lambda>cell nm. Inr (Some example_record)"
      and keyspace_name = "''test_keyspace''" and kc = example_constants and data = example_record]
  by (simp add: is_empty_dict_def empty_record_def example_record_def example_keyspace_def)

text \<open>
  Claim C9. The constructor \<^verbatim>\<open>Keyspace\<close> is defined on every record and takes the default
  for every missing field: no partitions, the empty sharding column name, \<open>KIT_UNSET\<close>
  as the sharding column type, \<^verbatim>\<open>None\<close> as served_from; a field that is present is
  copied. A partition that lacks \<^verbatim>\<open>'ShardReferences'\<close> gives \<^verbatim>\<open>get_shards\<close> the empty
  list, as if the role had no partition.
\<close>

theorem keyspace_defaults:
  "name (Keyspace kc nm data) = nm \<and>
   (Partitions data = None \<longrightarrow> partitions (Keyspace kc nm data) = Map.empty) \<and>
   (Partitions data = Some ps \<longrightarrow> partitions (Keyspace kc nm data) = ps) \<and>
   (ShardingColumnName data = None \<longrightarrow> sharding_col_name (Keyspace kc nm data) = []) \<and>
   (ShardingColumnName data = Some col \<longrightarrow> sharding_col_name (Keyspace kc nm data) = col) \<and>
   (ShardingColumnType data = None \<longrightarrow>
      sharding_col_type (Keyspace kc nm data) = KIT_UNSET kc) \<and>
   (ShardingColumnType data = Some ty \<longrightarrow> sharding_col_type (Keyspace kc nm data) = ty) \<and>
   served_from (Keyspace kc nm data) = ServedFrom data \<and>
   (db_type \<noteq> [] \<and> partitions self db_type = Some p \<and> ShardReferences p = None \<longrightarrow>
      get_shards self db_type = Inr [] \<and>
      get_shards self db_type =
        get_shards (self\<lparr> partitions := (partitions self)(db_type := None) \<rparr>) db_type)"
  by (simp add: Keyspace_def get_shards_def)

theorem keyspace_defaults_witness:
  "Partitions empty_record = None \<and> ShardingColumnName empty_record = None \<and>
   ShardingColumnType empty_record = None \<and> ServedFrom empty_record = None \<and>
   Keyspace example_constants ''test_keyspace'' empty_record =
     \<lparr> name = ''test_keyspace'', partitions = Map.empty, sharding_col_name = [],
       sharding_col_type = KIT_UNSET example_constants, served_from = None \<rparr> \<and>
   ShardingColumnName example_record = Some ''keyspace_id'' \<and>
   sharding_col_name (Keyspace example_constants ''test_keyspace'' example_record) =
     ''keyspace_id'' \<and>
   ''rdonly'' \<noteq> [] \<and>
   partitions example_keyspace ''rdonly'' = Some \<lparr> ShardReferences = None \<rparr> \<and>
   get_shards example_keyspace ''rdonly'' = Inr []"
proof -
  have missing: "Partitions empty_record = None" "ShardingColumnName empty_record = None"
    "ShardingColumnType empty_record = None" "ServedFrom empty_record = None"
    by (simp_all add: empty_record_def)
  have "Keyspace example_constants ''test_keyspace'' empty_record =
     \<lparr> name = ''test_keyspace'', partitions = Map.empty, sharding_col_name = [],
       sharding_col_type = KIT_UNSET example_constants, served_from = None \<rparr>"
    using missing
      keyspace_defaults [where data = empty_record and kc = example_constants
        and nm = "''test_keyspace''"]
    by (intro keyspace.equality) simp_all
  moreover have col: "ShardingColumnName example_record = Some ''keyspace_id''"
    by (simp add: example_record_def)
  moreover have "sharding_col_name (Keyspace example_constants ''test_keyspace'' example_record) =
     ''keyspace_id''"
    using col
      keyspace_defaults [where data = example_record and kc = example_constants
        and nm = "''test_keyspace''" and col = "''keyspace_id''"]
    by simp
  moreover have rdonly:
    "partitions example_keyspace ''rdonly'' = Some \<lparr> ShardReferences = None \<rparr>"
    by (simp add: example_partitions)
  moreover have "get_shards example_keyspace ''rdonly'' = Inr []"
    using rdonly
      keyspace_defaults [where self = example_keyspace and db_type = "''rdonly''"
        and p = "\<lparr> ShardReferences = None \<rparr>"]
    by simp
  ultimately show ?thesis using missing by simp
qed

text \<open>
  Claim C10, as amended. \<^verbatim>\<open>keyspace_id_to_shard_name_for_db_type\<close> returns a shard only
  for keys from 1 to \<open>2^64 - 1\<close>. For a non-empty role and a key that is negative or at
  least \<open>2^64\<close>, the pack step raises \<^verbatim>\<open>struct.error\<close>, which is not a \<^verbatim>\<open>ValueError\<close>, and
  the call ends with it whatever the keyspace holds; the key 0 is rejected before, as
  unset, and so is an empty role.
\<close>

theorem resolve_shard_key_range:
  "(keyspace_id_to_shard_name_for_db_type kc self keyspace_id db_type = Inr nm \<longrightarrow>
      1 \<le> keyspace_id \<and> keyspace_id < 2 ^ 64) \<and>
   (db_type \<noteq> [] \<and> (keyspace_id < 0 \<or> 2 ^ 64 \<le> keyspace_id) \<longrightarrow>
      pack_keyspace_id keyspace_id = Inl StructError \<and>
      keyspace_id_to_shard_name_for_db_type kc self keyspace_id db_type = Inl StructError) \<and>
   keyspace_id_to_shard_name_for_db_type kc self 0 db_type =
     Inl (ValueError Keyspace_id_is_not_set) \<and>
   keyspace_id_to_shard_name_for_db_type kc self keyspace_id [] =
     Inl (ValueError (if keyspace_id = 0 then Keyspace_id_is_not_set else Db_type_is_not_set)) \<and>
   (\<forall>args. StructError \<noteq> ValueError args)"
proof -
  have "1 \<le> keyspace_id \<and> keyspace_id < 2 ^ 64"
    if "keyspace_id_to_shard_name_for_db_type kc self keyspace_id db_type = Inr nm"
  proof -
    from that have "keyspace_id \<noteq> 0" and "pack_keyspace_id keyspace_id \<noteq> Inl StructError"
      by (auto simp: keyspace_id_to_shard_name_for_db_type_def split: if_splits)
    then show ?thesis
      by (auto simp: pack_keyspace_id_def split: if_splits)
  qed
  moreover have "pack_keyspace_id keyspace_id = Inl StructError \<and>
      keyspace_id_to_shard_name_for_db_type kc self keyspace_id db_type = Inl StructError"
    if "db_type \<noteq> []" "keyspace_id < 0 \<or> 2 ^ 64 \<le> keyspace_id"
  proof -
    from that(2) have "pack_keyspace_id keyspace_id = Inl StructError"
      by (auto simp: pack_keyspace_id_def)
    moreover from that(2) have "keyspace_id \<noteq> 0" by auto
    ultimately show ?thesis using that(1)
      by (simp add: keyspace_id_to_shard_name_for_db_type_def)
  qed
  moreover have "keyspace_id_to_shard_name_for_db_type kc self 0 db_type =
     Inl (ValueError Keyspace_id_is_not_set)"
    by (simp add: keyspace_id_to_shard_name_for_db_type_def)
  moreover have "keyspace_id_to_shard_name_for_db_type kc self keyspace_id [] =
     Inl (ValueError (if keyspace_id = 0 then Keyspace_id_is_not_set else Db_type_is_not_set))"
    by (simp add: keyspace_id_to_shard_name_for_db_type_def)
  ultimately show ?thesis by blast
qed

theorem resolve_shard_key_range_witness:
  "keyspace_id_to_shard_name_for_db_type example_constants example_keyspace 1 ''master'' =
     Inr ''-80'' \<and> (1::int) \<le> 1 \<and> (1::int) < 2 ^ 64 \<and>
   ''master'' \<noteq> [] \<and> (-1::int) < 0 \<and>
   pack_keyspace_id (-1) = Inl StructError \<and>
   keyspace_id_to_shard_name_for_db_type example_constants example_keyspace (-1) ''master'' =
     Inl StructError \<and>
   (2 ^ 64 :: int) \<le> 2 ^ 64 \<and>
   keyspace_id_to_shard_name_for_db_type example_constants example_keyspace (2 ^ 64) ''master'' =
     Inl StructError"
  using
    resolve_shard_key_range [where kc = example_constants and self = example_keyspace
      and keyspace_id = 1 and db_type = "''master''" and nm = "''-80''"]
    resolve_shard_key_range [where kc = example_constants and self = example_keyspace
      and keyspace_id = "-1" and db_type = "''master''"]
    resolve_shard_key_range [where kc = example_constants and self = example_keyspace
      and keyspace_id = "2 ^ 64" and db_type = "''master''"]
  by (simp add: keyspace_id_to_shard_name_for_db_type_def pack_keyspace_id_def get_shards_def
      example_partitions example_shards_def example_constants_def shard_contain_kid_def)

text \<open>
  Claim C10, as stated, fails when the role is empty: the check of the role comes before
  the pack step, so the key \<open>-1\<close> with an empty role ends in the \<^verbatim>\<open>ValueError\<close>
  "db_type is not set" and not in a packing error.
\<close>

theorem resolve_shard_role_guard_first:
  "(-1 :: int) < 0 \<and>
   keyspace_id_to_shard_name_for_db_type example_constants example_keyspace (-1) [] =
     Inl (ValueError Db_type_is_not_set)"
  by (simp add: keyspace_id_to_shard_name_for_db_type_def)

section \<open>Properties of the reparenting protocol\<close>

lemma commit_master_alias [simp]:
  "master_alias (rewire_and_commit agent old new ts) = Some new"
  by (simp add: rewire_and_commit_def)










lemma planned_result:
  assumes "master_alias topo = Some old" "new \<noteq> old"
    "demote_master agent old = RpcOk" "new \<in> fst ` set (tablets topo)"
    "promote_slave agent new = RpcOk"
  shows "planned_reparent_shard agent topo new =
      (Succeeded (rewire_failures agent (Some old) new (tablets topo)),
       rewire_and_commit agent (Some old) new (tablets topo))"
  using assms by (simp add: planned_reparent_shard_def)


lemma emergency_result:
  assumes "master_alias topo \<noteq> Some new" "new \<in> fst ` set (tablets topo)"
    "promote_slave agent new = RpcOk"
  shows "emergency_reparent_shard agent topo new =
      (Succeeded (rewire_failures agent None new
                 (filter (\<lambda>(a, t). Some a \<noteq> master_alias topo) (tablets topo))),
       rewire_and_commit agent None new
         (filter (\<lambda>(a, t). Some a \<noteq> master_alias topo) (tablets topo)))"
proof -
  from assms(1,2)
  have "new \<in> fst ` set (filter (\<lambda>(a, t). Some a \<noteq> master_alias topo) (tablets topo))"
    by force
  with assms show ?thesis
    by (simp add: emergency_reparent_shard_def Let_def)
qed





text \<open>
  Claim C3. When the demote RPC to the current master fails or times out, the planned
  reparent aborts with \<open>DemoteMasterFailed\<close> and the shard is returned as it was read:
  nothing is written. Repeated on that shard once the old master answers, the new
  master, a tablet of the shard, is promoted and the other tablets are rewired, the
  planned reparent succeeds with no failed replica and the shard record names the new
  master.
\<close>

theorem planned_reparent_demote_failure:
  assumes "master_alias topo = Some old" and "new \<noteq> old"
    and "demote_master agent old = RpcFailed \<or> demote_master agent old = RpcTimedOut"
  shows "planned_reparent_shard agent topo new = (Failed DemoteMasterFailed, topo) \<and>
         (demote_master agent' old = RpcOk \<and>
          new \<in> fst ` set (tablets topo) \<and> promote_slave agent' new = RpcOk \<and>
          (\<forall>a \<in> fst ` set (tablets topo). a \<noteq> old \<and> a \<noteq> new \<longrightarrow> set_master agent' a = RpcOk) \<longrightarrow>
            fst (planned_reparent_shard agent'
                   (snd (planned_reparent_shard agent topo new)) new) = Succeeded [] \<and>
            master_alias (snd (planned_reparent_shard agent'
                   (snd (planned_reparent_shard agent topo new)) new)) = Some new)"
proof -
  from assms have abort: "planned_reparent_shard agent topo new = (Failed DemoteMasterFailed, topo)"
    by (auto simp: planned_reparent_shard_def)
  have "fst (planned_reparent_shard agent' topo new) = Succeeded [] \<and>
        master_alias (snd (planned_reparent_shard agent' topo new)) = Some new"
    if up: "demote_master agent' old = RpcOk" "new \<in> fst ` set (tablets topo)"
      "promote_slave agent' new = RpcOk"
      and rest: "\<forall>a \<in> fst ` set (tablets topo). a \<noteq> old \<and> a \<noteq> new \<longrightarrow> set_master agent' a = RpcOk"
  proof -
    from rest have "rewire_failures agent' (Some old) new (tablets topo) = []"
      by (auto simp: rewire_failures_def filter_empty_conv)
    with planned_result [OF assms(1,2) up] show ?thesis
      by simp
  qed
  with abort show ?thesis by simp
qed

lemma down_master_shard_simps:
  "master_alias down_master_shard = Some tablet_62344"
  "map fst (tablets down_master_shard) = [tablet_62344, tablet_62044, tablet_41983, tablet_31981]"
  by (simp_all add: down_master_shard_def)

lemma down_slave_shard_simps:
  "master_alias down_slave_shard = Some tablet_62344"
  "map fst (tablets down_slave_shard) = [tablet_62344, tablet_62044, tablet_31981, tablet_41983]"
  by (simp_all add: down_slave_shard_def)

lemma tablets_distinct:
  "tablet_62344 \<noteq> tablet_62044" "tablet_62344 \<noteq> tablet_41983" "tablet_62344 \<noteq> tablet_31981"
  "tablet_62044 \<noteq> tablet_62344" "tablet_62044 \<noteq> tablet_41983" "tablet_62044 \<noteq> tablet_31981"
  "tablet_41983 \<noteq> tablet_62344" "tablet_41983 \<noteq> tablet_62044" "tablet_41983 \<noteq> tablet_31981"
  "tablet_31981 \<noteq> tablet_62344" "tablet_31981 \<noteq> tablet_62044" "tablet_31981 \<noteq> tablet_41983"
  by (simp_all add: tablet_62344_def tablet_62044_def tablet_41983_def tablet_31981_def)

lemma agents_simps:
  "demote_master (down d) a = (if a = d then RpcTimedOut else RpcOk)"
  "promote_slave (down d) a = (if a = d then RpcFailed else RpcOk)"
  "set_master (down d) a = (if a = d then RpcFailed else RpcOk)"
  "demote_master all_up a = RpcOk" "promote_slave all_up a = RpcOk" "set_master all_up a = RpcOk"
  by (simp_all add: down_def all_up_def)

lemma tablet_62044_member: "tablet_62044 \<in> fst ` set (tablets down_master_shard)"
  by (simp add: down_master_shard_def)

theorem planned_reparent_demote_failure_witness:
  "master_alias down_master_shard = Some tablet_62344 \<and> tablet_62044 \<noteq> tablet_62344 \<and>
   demote_master (down tablet_62344) tablet_62344 = RpcTimedOut \<and>
   planned_reparent_shard (down tablet_62344) down_master_shard tablet_62044 =
     (Failed DemoteMasterFailed, down_master_shard) \<and>
   tablet_62044 \<in> fst ` set (tablets down_master_shard) \<and>
   fst (planned_reparent_shard all_up
          (snd (planned_reparent_shard (down tablet_62344) down_master_shard tablet_62044))
          tablet_62044) = Succeeded [] \<and>
   master_alias (snd (planned_reparent_shard all_up
          (snd (planned_reparent_shard (down tablet_62344) down_master_shard tablet_62044))
          tablet_62044)) = Some tablet_62044"
proof -
  have ne: "tablet_62044 \<noteq> tablet_62344"
    by (rule tablets_distinct)
  have to: "demote_master (down tablet_62344) tablet_62344 = RpcTimedOut"
    by (simp add: agents_simps)
  from planned_reparent_demote_failure
         [where topo = down_master_shard and old = tablet_62344 and new = tablet_62044
            and agent = "down tablet_62344" and agent' = all_up]
       ne to tablet_62044_member
  show ?thesis
    by (auto simp: down_master_shard_simps agents_simps)
qed







text \<open>
  Claim C5. When the new master, a tablet of the shard, is promoted, the old one is
  demoted if the reparent is a planned one, and the rewire of some other tablet fails
  or times out, then the planned reparent, and the emergency reparent alike, commits the
  mastership change, so that the shard record names the new master, and reports overall
  success; the result enumerates exactly the tablets whose rewire failed.
\<close>

theorem partial_rewire_failure:
  assumes "master_alias topo = Some old" and "new \<noteq> old"
    and "new \<in> fst ` set (tablets topo)" and "promote_slave agent new = RpcOk"
    and "r \<in> fst ` set (tablets topo)" and "r \<noteq> old" and "r \<noteq> new"
    and "set_master agent r = RpcFailed \<or> set_master agent r = RpcTimedOut"
  shows "(demote_master agent old = RpcOk \<longrightarrow>
           (\<exists>failed. fst (planned_reparent_shard agent topo new) = Succeeded failed \<and>
              r \<in> set failed \<and>
              set failed = {a \<in> fst ` set (tablets topo).
                              a \<noteq> old \<and> a \<noteq> new \<and> set_master agent a \<noteq> RpcOk}) \<and>
           master_alias (snd (planned_reparent_shard agent topo new)) = Some new) \<and>
         (\<exists>failed. fst (emergency_reparent_shard agent topo new) = Succeeded failed \<and>
            r \<in> set failed \<and>
            set failed = {a \<in> fst ` set (tablets topo).
                            a \<noteq> old \<and> a \<noteq> new \<and> set_master agent a \<noteq> RpcOk}) \<and>
         master_alias (snd (emergency_reparent_shard agent topo new)) = Some new"
proof -
  let ?bad = "{a \<in> fst ` set (tablets topo). a \<noteq> old \<and> a \<noteq> new \<and> set_master agent a \<noteq> RpcOk}"
  let ?survivors = "filter (\<lambda>(a, t). Some a \<noteq> master_alias topo) (tablets topo)"
  from assms(5-8) have r: "r \<in> ?bad" by auto
  have p: "set (rewire_failures agent (Some old) new (tablets topo)) = ?bad"
    by (auto simp: rewire_failures_def)
  have e: "set (rewire_failures agent None new ?survivors) = ?bad"
    using assms(1) by (force simp: rewire_failures_def)
  from assms(1,2) have ne: "master_alias topo \<noteq> Some new" by auto
  have planned: "(\<exists>failed. fst (planned_reparent_shard agent topo new) = Succeeded failed \<and>
              r \<in> set failed \<and> set failed = ?bad) \<and>
           master_alias (snd (planned_reparent_shard agent topo new)) = Some new"
    if "demote_master agent old = RpcOk"
    using planned_result [OF assms(1,2) that assms(3,4)] p r
    by simp
  have emergency: "(\<exists>failed. fst (emergency_reparent_shard agent topo new) = Succeeded failed \<and>
            r \<in> set failed \<and> set failed = ?bad) \<and>
         master_alias (snd (emergency_reparent_shard agent topo new)) = Some new"
    using emergency_result [OF ne assms(3,4)] e r
    by simp
  from planned emergency show ?thesis by blast
qed

theorem partial_rewire_failure_witness:
  "master_alias down_slave_shard = Some tablet_62344 \<and> tablet_62044 \<noteq> tablet_62344 \<and>
   tablet_62044 \<in> fst ` set (tablets down_slave_shard) \<and>
   promote_slave (down tablet_41983) tablet_62044 = RpcOk \<and>
   tablet_41983 \<in> fst ` set (tablets down_slave_shard) \<and>
   tablet_41983 \<noteq> tablet_62344 \<and> tablet_41983 \<noteq> tablet_62044 \<and>
   set_master (down tablet_41983) tablet_41983 = RpcFailed \<and>
   demote_master (down tablet_41983) tablet_62344 = RpcOk \<and>
   (\<exists>failed.
      fst (planned_reparent_shard (down tablet_41983) down_slave_shard tablet_62044) =
        Succeeded failed \<and> tablet_41983 \<in> set failed) \<and>
   master_alias (snd (planned_reparent_shard (down tablet_41983) down_slave_shard tablet_62044)) =
     Some tablet_62044 \<and>
   (\<exists>failed.
      fst (emergency_reparent_shard (down tablet_41983) down_slave_shard tablet_62044) =
        Succeeded failed \<and> tablet_41983 \<in> set failed) \<and>
   master_alias (snd (emergency_reparent_shard (down tablet_41983) down_slave_shard tablet_62044)) =
     Some tablet_62044"
proof -
  have h: "master_alias down_slave_shard = Some tablet_62344" "tablet_62044 \<noteq> tablet_62344"
    "tablet_62044 \<in> fst ` set (tablets down_slave_shard)"
    "promote_slave (down tablet_41983) tablet_62044 = RpcOk"
    "tablet_41983 \<in> fst ` set (tablets down_slave_shard)"
    "tablet_41983 \<noteq> tablet_62344" "tablet_41983 \<noteq> tablet_62044"
    "set_master (down tablet_41983) tablet_41983 = RpcFailed"
    "demote_master (down tablet_41983) tablet_62344 = RpcOk"
    by (simp_all add: down_slave_shard_def agents_simps tablets_distinct)
  from h(8) have f: "set_master (down tablet_41983) tablet_41983 = RpcFailed \<or>
      set_master (down tablet_41983) tablet_41983 = RpcTimedOut" by simp
  from partial_rewire_failure [OF h(1-7) f] h show ?thesis
    by blast
qed

end
